theory Spec2Isabelle
  imports Complex_Main "HOL-Library.Multiset" "HOL-Library.List_Lexorder" "HOL-Library.Char_ord"
    "HOL-Library.Log_Nat"
begin

section \<open>The data model\<close>

text \<open>
  Modelled from the spec: the Sequelize models Profile, Contract and Job are defined in
  \<^verbatim>\<open>./model\<close>, which \<^verbatim>\<open>src/app.js\<close> imports and which is not among the sources. A
  model is a table, embedded as the list of its rows; a row is a record with the
  columns that \<^verbatim>\<open>app.js\<close> reads or writes, typed as section 3 of the specification
  describes them. Amounts (\<open>balance\<close>, \<open>price\<close>) are JavaScript numbers, embedded as
  the rationals they denote (next section); a point in time is an integer
  timestamp.

  \<open>paid\<close> is a nullable boolean column: the handlers select unpaid jobs with
  \<^verbatim>\<open>paid: null\<close>, select paid jobs with \<^verbatim>\<open>paid: true\<close> and only ever write \<open>true\<close>.
  The statuses \<open>new\<close> and \<open>terminated\<close> and the column \<open>role\<close> are named by section 3
  only; the handlers compare a status with \<open>in_progress\<close> and never read \<open>role\<close>.
\<close>

datatype contract_status = new | in_progress | terminated

datatype profile_role = Client | Contractor

record Profile =
  profile_id :: nat
  firstName :: string
  lastName :: string
  profession :: string
  balance :: rat
  role :: profile_role

record Contract =
  contract_id :: nat
  ClientId :: nat
  ContractorId :: nat
  status :: contract_status

record Job =
  job_id :: nat
  ContractId :: nat
  price :: rat
  paid :: "bool option"
  paymentDate :: "int option"

record store =
  Profiles :: "Profile list"
  Contracts :: "Contract list"
  Jobs :: "Job list"

text \<open>
  What a handler can raise inside its body: a statement that the store rejects, or
  a property read on \<open>null\<close> (JavaScript's \<open>TypeError\<close>).
\<close>

datatype error = StoreError | TypeError

text \<open>
  A report route answers with a status and no body, with a JSON body, or not at all
  because its handler threw outside any \<^verbatim>\<open>try\<close>.
\<close>

datatype 'a reply = Status nat | Json 'a | Unhandled error

section \<open>JavaScript numbers\<close>

text \<open>
  An amount is a JavaScript number: a binary64 floating-point number. A finite number
  is embedded as the rational it denotes. The operators \<^verbatim>\<open>-\<close>, \<^verbatim>\<open>+\<close> and \<^verbatim>\<open>*\<close> compute the
  exact result and round it to the nearest binary64 number, a tie going to the even
  significand; \<open>fl\<close> is this rounding. The significand has 53 bits and the last of them
  has weight at least \<open>2 powi -1074\<close> (gradual underflow). \<open>ilog2 x\<close> is the exponent of
  the leading bit of \<open>x > 0\<close>. The comparison \<^verbatim>\<open>>\<close> is exact.

  A result of magnitude \<open>2 ^ 1024\<close> or more is \<open>Infinity\<close> in JavaScript, a value the
  embedding does not have: \<open>finite64\<close> says that a rounded result is below that bound,
  and the statements about computed amounts assume it of every result. From finite
  numbers the three operators produce no \<open>NaN\<close>; the sign of a zero is not kept.
\<close>

definition ilog2 :: "rat \<Rightarrow> int" where
  "ilog2 x = (if 1 \<le> x then bitlen \<lfloor>x\<rfloor> - 1 else - bitlen (\<lceil>1 / x\<rceil> - 1))"

definition round_half_even :: "rat \<Rightarrow> int" where
  "round_half_even q =
     (let f = \<lfloor>q\<rfloor>; r = q - of_int f
      in if r < 1 / 2 then f else if 1 / 2 < r then f + 1 else if even f then f else f + 1)"

definition fl :: "rat \<Rightarrow> rat" where
  "fl x =
     (if x = 0 then 0
      else
        let e = max (ilog2 \<bar>x\<bar> - 52) (- 1074)
        in of_int (round_half_even (x / 2 powi e)) * 2 powi e)"

definition finite64 :: "rat \<Rightarrow> bool" where
  "finite64 x \<longleftrightarrow> \<bar>x\<bar> < 2 ^ 1024"

text \<open>
  The left-to-right sum of a list of numbers, as \<^verbatim>\<open>reduce((acc, x) => acc + x, acc)\<close>
  computes it, stays finite.
\<close>

fun finite_sums :: "rat \<Rightarrow> rat list \<Rightarrow> bool" where
  "finite_sums acc [] = True"
| "finite_sums acc (x # xs) \<longleftrightarrow> finite64 (fl (acc + x)) \<and> finite_sums (fl (acc + x)) xs"

section \<open>Store operations\<close>

text \<open>
  A lookup by primary key is \<open>findOne\<close> with \<^verbatim>\<open>where: { id }\<close>: the first row with that
  id, or \<open>null\<close>. \<open>update\<close> with \<^verbatim>\<open>where: { id }\<close> rewrites every row with that id and
  leaves the others alone.
\<close>

definition Profile_by_id :: "store \<Rightarrow> nat \<Rightarrow> Profile option" where
  "Profile_by_id db i = find (\<lambda>p. profile_id p = i) (Profiles db)"

definition Contract_by_id :: "store \<Rightarrow> nat \<Rightarrow> Contract option" where
  "Contract_by_id db i = find (\<lambda>c. contract_id c = i) (Contracts db)"

definition Job_by_id :: "store \<Rightarrow> nat \<Rightarrow> Job option" where
  "Job_by_id db i = find (\<lambda>j. job_id j = i) (Jobs db)"

definition Profile_update :: "nat \<Rightarrow> rat \<Rightarrow> store \<Rightarrow> store" where
  "Profile_update i b db =
     db\<lparr>Profiles := map (\<lambda>p. if profile_id p = i then p\<lparr>balance := b\<rparr> else p) (Profiles db)\<rparr>"

definition Job_update :: "nat \<Rightarrow> int \<Rightarrow> store \<Rightarrow> store" where
  "Job_update i now db =
     db\<lparr>Jobs := map (\<lambda>j. if job_id j = i then j\<lparr>paid := Some True, paymentDate := Some now\<rparr> else j)
                   (Jobs db)\<rparr>"

text \<open>
  The associations followed by \<^verbatim>\<open>include\<close>: a job's Contract, a contract's Contractor
  and Client. Each is a join on the primary key of the other table, so it is a
  lookup that may find nothing.
\<close>

definition Job_Contract :: "store \<Rightarrow> Job \<Rightarrow> Contract option" where
  "Job_Contract db j = Contract_by_id db (ContractId j)"

definition Contract_Contractor :: "store \<Rightarrow> Contract \<Rightarrow> Profile option" where
  "Contract_Contractor db c = Profile_by_id db (ContractorId c)"

definition Contract_Client :: "store \<Rightarrow> Contract \<Rightarrow> Profile option" where
  "Contract_Client db c = Profile_by_id db (ClientId c)"

text \<open>
  Modelled from the spec: the middleware \<^verbatim>\<open>getProfile\<close> (\<^verbatim>\<open>./middleware/getProfile\<close>) is
  imported by \<^verbatim>\<open>app.js\<close> and is not among the sources. Section 1 of the specification
  describes it as the resolver that yields the caller's Profile (id, role, balance) or
  rejects the request. It is embedded as the lookup of the caller's id; a request
  it rejects never reaches a handler and is answered 401.
\<close>

definition getProfile :: "store \<Rightarrow> nat \<Rightarrow> Profile option" where
  "getProfile db caller = Profile_by_id db caller"

text \<open>
  Statements inside a \<^verbatim>\<open>try\<close> block may be rejected by the store. Which ones are is
  not decided by the handler, so it is a parameter: \<open>fails k\<close> says that the \<open>k\<close>-th
  statement of the block throws.
\<close>

type_synonym faults = "nat \<Rightarrow> bool"

definition no_faults :: faults where
  "no_faults = (\<lambda>k. False)"

section \<open>The route \<^verbatim>\<open>POST /jobs/:job_id/pay\<close>\<close>

text \<open>
  \<^verbatim>\<open>Job.findOne\<close> of lines 75 to 95: the job with the requested id and \<open>paid\<close> null whose
  Contract (an inner join, since the include has a \<^verbatim>\<open>where\<close>) has the caller as client
  and status \<open>in_progress\<close>; the contract's Contractor comes along through an outer
  join.
\<close>

definition payable :: "store \<Rightarrow> nat \<Rightarrow> nat \<Rightarrow> Job \<Rightarrow> bool" where
  "payable db caller jid j \<longleftrightarrow>
     job_id j = jid \<and> paid j = None \<and>
     (case Job_Contract db j of
        None \<Rightarrow> False
      | Some c \<Rightarrow> ClientId c = caller \<and> status c = in_progress)"

definition Job_findOne_payable :: "store \<Rightarrow> nat \<Rightarrow> nat \<Rightarrow> (Job \<times> Contract \<times> Profile option) option" where
  "Job_findOne_payable db caller jid =
     (case find (payable db caller jid) (Jobs db) of
        None \<Rightarrow> None
      | Some j \<Rightarrow>
          (case Job_Contract db j of
             None \<Rightarrow> None
           | Some c \<Rightarrow> Some (j, c, Contract_Contractor db c)))"

text \<open>
  The body of the \<^verbatim>\<open>try\<close> block, lines 99 to 140. The three updates are awaited one
  after the other, in the order written. Each is called as
  \<^verbatim>\<open>Model.update(values, { where }, { transaction })\<close>: the transaction handle stands in a
  third argument, and \<^verbatim>\<open>update\<close> takes its options from the second. So no statement
  runs on \<open>t1\<close> or on \<open>t2\<close>; every update is executed on its own and stays, and the
  rollback of the two (empty) transactions on an exception undoes nothing. The
  values written are computed from the profile and the job as they were read
  before the block, by the number operators \<^verbatim>\<open>-\<close> and \<^verbatim>\<open>+\<close>, which round.
  Reading \<^verbatim>\<open>job.Contract.Contractor.balance\<close> throws when the contract's Contractor
  is \<open>null\<close>; that happens while the arguments of the second update are evaluated,
  after the first update has been awaited.

  The result is the exception that left the block, if any, and the store as the
  block leaves it.
\<close>

definition pay_updates ::
  "faults \<Rightarrow> int \<Rightarrow> Profile \<Rightarrow> nat \<Rightarrow> Job \<Rightarrow> Contract \<Rightarrow> Profile option \<Rightarrow> store \<Rightarrow> error option \<times> store" where
  "pay_updates fails now profile jid job contract contractor db =
     (if fails 0 then (Some StoreError, db)
      else
        let db1 = Profile_update (profile_id profile) (fl (balance profile - price job)) db in
        (case contractor of
           None \<Rightarrow> (Some TypeError, db1)
         | Some c \<Rightarrow>
             if fails 1 then (Some StoreError, db1)
             else
               let db2 = Profile_update (ContractorId contract) (fl (balance c + price job)) db1 in
               if fails 2 then (Some StoreError, db2)
               else (None, Job_update jid now db2)))"

text \<open>
  The handler, lines 72 to 145: 404 when no job is found, 400 when the price exceeds
  the balance of \<^verbatim>\<open>req.profile\<close>, otherwise the updates, answered 200, or 500 from the
  \<^verbatim>\<open>catch\<close>. \<open>now\<close> is the value of \<^verbatim>\<open>new Date()\<close>. The result is the status and the
  store after the request.
\<close>

definition pay_handler :: "faults \<Rightarrow> int \<Rightarrow> Profile \<Rightarrow> nat \<Rightarrow> store \<Rightarrow> nat \<times> store" where
  "pay_handler fails now profile jid db =
     (case Job_findOne_payable db (profile_id profile) jid of
        None \<Rightarrow> (404, db)
      | Some (job, contract, contractor) \<Rightarrow>
          if price job > balance profile then (400, db)
          else
            (case pay_updates fails now profile jid job contract contractor db of
               (Some e, db') \<Rightarrow> (500, db')
             | (None, db') \<Rightarrow> (200, db')))"

definition PayJob :: "faults \<Rightarrow> int \<Rightarrow> nat \<Rightarrow> nat \<Rightarrow> store \<Rightarrow> nat \<times> store" where
  "PayJob fails now caller jid db =
     (case getProfile db caller of
        None \<Rightarrow> (401, db)
      | Some profile \<Rightarrow> pay_handler fails now profile jid db)"

section \<open>The route \<^verbatim>\<open>POST /balances/deposit/:userId\<close>\<close>

text \<open>
  \<^verbatim>\<open>Job.findAll\<close> of lines 154 to 167, the \<^verbatim>\<open>reduce\<close> of line 168 and the limit of line 169.
  The sum and the product are those of the number operators: each step rounds.
\<close>

definition unpaid_jobs_of_client :: "store \<Rightarrow> nat \<Rightarrow> Job list" where
  "unpaid_jobs_of_client db userId =
     filter (\<lambda>j. paid j = None \<and>
                 (case Job_Contract db j of
                    None \<Rightarrow> False
                  | Some c \<Rightarrow> ClientId c = userId \<and> status c = in_progress))
            (Jobs db)"

definition totalJobsDebt :: "store \<Rightarrow> nat \<Rightarrow> rat" where
  "totalJobsDebt db userId =
     foldl (\<lambda>acc job. fl (acc + price job)) 0 (unpaid_jobs_of_client db userId)"

definition depositLimit :: "store \<Rightarrow> nat \<Rightarrow> rat" where
  "depositLimit db userId = fl (totalJobsDebt db userId * 0.25)"

text \<open>
  The handler, lines 150 to 197. It does not read \<^verbatim>\<open>req.profile\<close>: the account is the
  one named in the path. Inside the \<^verbatim>\<open>try\<close> block the first statement reads the
  target profile and the second writes its balance; \<^verbatim>\<open>client.balance\<close> throws when
  no profile has that id. Every exception of the block is answered 500.

  \<open>deposit\<close> is the number that the request body holds, compared by \<^verbatim>\<open>>\<close> and added by
  \<^verbatim>\<open>+\<close>, which rounds. A body whose \<open>deposit\<close> is not a number is outside the
  embedding: the two operators would coerce it, and what the balance column then
  holds is decided by \<^verbatim>\<open>./model\<close> and the store.
\<close>

definition deposit_handler :: "faults \<Rightarrow> Profile \<Rightarrow> nat \<Rightarrow> rat \<Rightarrow> store \<Rightarrow> nat \<times> store" where
  "deposit_handler fails profile userId deposit db =
     (if deposit > depositLimit db userId then (400, db)
      else if fails 0 then (500, db)
      else
        (case Profile_by_id db userId of
           None \<Rightarrow> (500, db)
         | Some client \<Rightarrow>
             if fails 1 then (500, db)
             else (200, Profile_update userId (fl (balance client + deposit)) db)))"

definition Deposit :: "faults \<Rightarrow> nat \<Rightarrow> nat \<Rightarrow> rat \<Rightarrow> store \<Rightarrow> nat \<times> store" where
  "Deposit fails caller userId deposit db =
     (case getProfile db caller of
        None \<Rightarrow> (401, db)
      | Some profile \<Rightarrow> deposit_handler fails profile userId deposit db)"

section \<open>The report queries\<close>

text \<open>
  Both reports run one \<^verbatim>\<open>Job.findAll\<close> with the same \<^verbatim>\<open>where\<close>: \<^verbatim>\<open>paid: true\<close> and
  \<open>paymentDate\<close> \<^verbatim>\<open>Op.between\<close> \<open>start\<close> and \<open>end\<close>, a closed interval. A job without a
  payment date is not between anything.
\<close>

definition paid_between :: "int \<Rightarrow> int \<Rightarrow> Job \<Rightarrow> bool" where
  "paid_between start end' j \<longleftrightarrow>
     paid j = Some True \<and>
     (case paymentDate j of
        None \<Rightarrow> False
      | Some d \<Rightarrow> start \<le> d \<and> d \<le> end')"

text \<open>
  The includes of the reports have no \<^verbatim>\<open>where\<close>, so they are outer joins: a job whose
  contract, or whose contract's profile, is missing stays in the result with \<open>null\<close> in
  the joined columns.
\<close>

definition Job_Contractor :: "store \<Rightarrow> Job \<Rightarrow> Profile option" where
  "Job_Contractor db j =
     (case Job_Contract db j of
        None \<Rightarrow> None
      | Some c \<Rightarrow> Contract_Contractor db c)"

definition Job_Client :: "store \<Rightarrow> Job \<Rightarrow> Profile option" where
  "Job_Client db j =
     (case Job_Contract db j of
        None \<Rightarrow> None
      | Some c \<Rightarrow> Contract_Client db c)"

text \<open>
  \<^verbatim>\<open>group\<close> with \<^verbatim>\<open>sum(price)\<close>: one row per value of the grouping column, with the sum
  of the prices of the joined rows that have this value. A joined row is the pair of
  its grouping column and its price.
\<close>

definition group_sum :: "('k \<times> rat) list \<Rightarrow> ('k \<times> rat) list" where
  "group_sum rows =
     map (\<lambda>k. (k, sum_list (map snd (filter (\<lambda>r. fst r = k) rows)))) (remdups (map fst rows))"

text \<open>
  \<^verbatim>\<open>order: [['total_amount', 'DESC']]\<close> is the only sort key of both queries. The store
  answers with the grouped rows in some order of descending total; among rows of
  equal total the query asks for nothing, and which order comes out is the store's
  business. The ordering is therefore a parameter of the handlers, and
  \<open>orders_by_total_desc\<close> says what the query guarantees about it.
\<close>

definition orders_by_total_desc :: "(('k \<times> rat) list \<Rightarrow> ('k \<times> rat) list) \<Rightarrow> bool" where
  "orders_by_total_desc order_by \<longleftrightarrow>
     (\<forall>rows. mset (order_by rows) = mset rows \<and>
             sorted_wrt (\<lambda>a b. snd a \<ge> snd b) (order_by rows))"

section \<open>The route \<^verbatim>\<open>GET /admin/best-profession\<close>\<close>

text \<open>
  Lines 202 to 244. The query groups the paid jobs by the profession of the contract's
  Contractor. The handler then maps every row to
  \<^verbatim>\<open>{ profession: row.Contract.Contractor.profession, jobs_paid_sum: total }\<close>, here a
  pair; the profession read is the grouping column, and the read throws on the row of
  the jobs without a contractor, where \<^verbatim>\<open>row.Contract\<close> or its \<^verbatim>\<open>Contractor\<close> is \<open>null\<close>.
  The handler has no \<^verbatim>\<open>try\<close>. \<^verbatim>\<open>findAll\<close> always resolves to an array, so the 404 of
  line 235 is never sent. The handler does not read \<^verbatim>\<open>req.profile\<close>.
\<close>

definition profession_rows :: "store \<Rightarrow> int \<Rightarrow> int \<Rightarrow> (string option \<times> rat) list" where
  "profession_rows db start end' =
     map (\<lambda>j. (map_option profession (Job_Contractor db j), price j))
         (filter (paid_between start end') (Jobs db))"

fun json_professions :: "(string option \<times> rat) list \<Rightarrow> error + (string \<times> rat) list" where
  "json_professions [] = Inr []"
| "json_professions ((None, total_amount) # rest) = Inl TypeError"
| "json_professions ((Some p, total_amount) # rest) =
     (case json_professions rest of
        Inl e \<Rightarrow> Inl e
      | Inr out \<Rightarrow> Inr ((p, total_amount) # out))"

definition best_profession_handler ::
  "((string option \<times> rat) list \<Rightarrow> (string option \<times> rat) list) \<Rightarrow> Profile \<Rightarrow> int \<Rightarrow> int \<Rightarrow> store
     \<Rightarrow> (string \<times> rat) list reply" where
  "best_profession_handler order_by profile start end' db =
     (case json_professions (order_by (group_sum (profession_rows db start end'))) of
        Inl e \<Rightarrow> Unhandled e
      | Inr result \<Rightarrow> Json result)"

definition BestProfession ::
  "((string option \<times> rat) list \<Rightarrow> (string option \<times> rat) list) \<Rightarrow> nat \<Rightarrow> int \<Rightarrow> int \<Rightarrow> store
     \<Rightarrow> (string \<times> rat) list reply" where
  "BestProfession order_by caller start end' db =
     (case getProfile db caller of
        None \<Rightarrow> Status 401
      | Some profile \<Rightarrow> best_profession_handler order_by profile start end' db)"


section \<open>The route \<^verbatim>\<open>GET /admin/best-clients\<close>\<close>

text \<open>
  \<^verbatim>\<open>limit: limit || 2\<close>, line 281. \<^verbatim>\<open>req.query.limit\<close> is \<open>undefined\<close> when the parameter is
  absent and is the parameter's text otherwise. \<open>undefined\<close> and the empty text are
  falsy, so they give the number 2, which keeps the first two rows. Any other text,
  \<open>"0"\<close> included, is truthy and is handed to the query as it is, unparsed. How the
  store reads a text as a limit is not in \<^verbatim>\<open>app.js\<close>: it keeps the first \<open>n\<close> rows, keeps
  all rows, or refuses the statement, and which of these it does for which text is a
  parameter of the handler, \<open>read_limit\<close>. A refused statement makes \<^verbatim>\<open>findAll\<close> throw.
\<close>

datatype limit_reading = Keep nat | KeepAll | Refuse

definition limit_or_2 :: "(string \<Rightarrow> limit_reading) \<Rightarrow> string option \<Rightarrow> limit_reading" where
  "limit_or_2 read_limit limit =
     (case limit of
        None \<Rightarrow> Keep 2
      | Some s \<Rightarrow> if s = [] then Keep 2 else read_limit s)"

definition apply_limit :: "limit_reading \<Rightarrow> 'a list \<Rightarrow> error + 'a list" where
  "apply_limit reading rows =
     (case reading of
        Keep n \<Rightarrow> Inr (take n rows)
      | KeepAll \<Rightarrow> Inr rows
      | Refuse \<Rightarrow> Inl StoreError)"

text \<open>
  Lines 249 to 293. The query groups the paid jobs by the id of the contract's Client,
  orders the groups and keeps the first \<open>limit\<close> of them. The handler maps every row
  to \<^verbatim>\<open>{ id: row.Contract.ClientId, fullName, paid: total }\<close>, here a triple, with
  \<^verbatim>\<open>fullName\<close> the template \<^verbatim>\<open>`${firstName} ${lastName}`\<close> of the row's Client. The join
  is on \<^verbatim>\<open>Contract.ClientId = Client.id\<close>, so the row's \<open>ClientId\<close> is the grouping column
  and its Client is the profile with that id. The reads throw on the row of the jobs
  without a client. As above there is no \<^verbatim>\<open>try\<close>, the 404 is never sent, and
  \<^verbatim>\<open>req.profile\<close> is not read.
\<close>

definition client_rows :: "store \<Rightarrow> int \<Rightarrow> int \<Rightarrow> (nat option \<times> rat) list" where
  "client_rows db start end' =
     map (\<lambda>j. (map_option profile_id (Job_Client db j), price j))
         (filter (paid_between start end') (Jobs db))"

fun json_clients :: "store \<Rightarrow> (nat option \<times> rat) list \<Rightarrow> error + (nat \<times> string \<times> rat) list" where
  "json_clients db [] = Inr []"
| "json_clients db ((None, total_amount) # rest) = Inl TypeError"
| "json_clients db ((Some i, total_amount) # rest) =
     (case Profile_by_id db i of
        None \<Rightarrow> Inl TypeError
      | Some client \<Rightarrow>
          (case json_clients db rest of
             Inl e \<Rightarrow> Inl e
           | Inr out \<Rightarrow> Inr ((i, firstName client @ '' '' @ lastName client, total_amount) # out)))"

definition best_clients_handler ::
  "(string \<Rightarrow> limit_reading) \<Rightarrow> ((nat option \<times> rat) list \<Rightarrow> (nat option \<times> rat) list) \<Rightarrow> Profile
     \<Rightarrow> int \<Rightarrow> int \<Rightarrow> string option \<Rightarrow> store \<Rightarrow> (nat \<times> string \<times> rat) list reply" where
  "best_clients_handler read_limit order_by profile start end' limit db =
     (case apply_limit (limit_or_2 read_limit limit)
             (order_by (group_sum (client_rows db start end'))) of
        Inl e \<Rightarrow> Unhandled e
      | Inr rows \<Rightarrow>
          (case json_clients db rows of
             Inl e \<Rightarrow> Unhandled e
           | Inr result \<Rightarrow> Json result))"

definition BestClients ::
  "(string \<Rightarrow> limit_reading) \<Rightarrow> ((nat option \<times> rat) list \<Rightarrow> (nat option \<times> rat) list) \<Rightarrow> nat
     \<Rightarrow> int \<Rightarrow> int \<Rightarrow> string option \<Rightarrow> store \<Rightarrow> (nat \<times> string \<times> rat) list reply" where
  "BestClients read_limit order_by caller start end' limit db =
     (case getProfile db caller of
        None \<Rightarrow> Status 401
      | Some profile \<Rightarrow> best_clients_handler read_limit order_by profile start end' limit db)"



section \<open>One ordering and one reading of limits\<close>

text \<open>
  An ordering that meets \<open>orders_by_total_desc\<close>, for the examples: insertion from the
  right, with a row placed before the first row whose total is not greater.
\<close>

fun insert_by_total :: "('k \<times> rat) \<Rightarrow> ('k \<times> rat) list \<Rightarrow> ('k \<times> rat) list" where
  "insert_by_total x [] = [x]"
| "insert_by_total x (y # ys) =
     (if snd y \<le> snd x then x # y # ys else y # insert_by_total x ys)"

definition order_by_insertion :: "('k \<times> rat) list \<Rightarrow> ('k \<times> rat) list" where
  "order_by_insertion rows = foldr insert_by_total rows []"

text \<open>
  One reading of limits, for the examples only: three texts are read as their numbers,
  \<open>"-1"\<close> as no limit, and every other text is refused.
\<close>

definition read_limit_example :: "string \<Rightarrow> limit_reading" where
  "read_limit_example s =
     (if s = ''0'' then Keep 0
      else if s = ''2'' then Keep 2
      else if s = ''5'' then Keep 5
      else if s = ''-1'' then KeepAll
      else Refuse)"

section \<open>Example stores\<close>

text \<open>
  The scenario of section 8 of the specification: client 1 with balance 100, contractor 2
  with balance 0, one contract in progress between them and one unpaid job of price 30.
\<close>

definition scenario_store :: store where
  "scenario_store =
     \<lparr>Profiles =
        [\<lparr>profile_id = 1, firstName = ''Harry'', lastName = ''Potter'', profession = ''Wizard'',
          balance = 100, role = Client\<rparr>,
         \<lparr>profile_id = 2, firstName = ''Linus'', lastName = ''Torvalds'', profession = ''Programmer'',
          balance = 0, role = Contractor\<rparr>],
      Contracts = [\<lparr>contract_id = 1, ClientId = 1, ContractorId = 2, status = in_progress\<rparr>],
      Jobs = [\<lparr>job_id = 1, ContractId = 1, price = 30, paid = None, paymentDate = None\<rparr>]\<rparr>"

text \<open>
  A store for the boundaries of the pay handler: the client's balance equals the price
  of job 1 and is one short of the price of job 2; job 3 is paid already and job 4
  belongs to a terminated contract.
\<close>

definition boundary_store :: store where
  "boundary_store =
     \<lparr>Profiles =
        [\<lparr>profile_id = 1, firstName = ''Harry'', lastName = ''Potter'', profession = ''Wizard'',
          balance = 30, role = Client\<rparr>,
         \<lparr>profile_id = 2, firstName = ''Linus'', lastName = ''Torvalds'', profession = ''Programmer'',
          balance = 0, role = Contractor\<rparr>],
      Contracts =
        [\<lparr>contract_id = 1, ClientId = 1, ContractorId = 2, status = in_progress\<rparr>,
         \<lparr>contract_id = 2, ClientId = 1, ContractorId = 2, status = terminated\<rparr>],
      Jobs =
        [\<lparr>job_id = 1, ContractId = 1, price = 30, paid = None, paymentDate = None\<rparr>,
         \<lparr>job_id = 2, ContractId = 1, price = 31, paid = None, paymentDate = None\<rparr>,
         \<lparr>job_id = 3, ContractId = 1, price = 5, paid = Some True, paymentDate = Some 3\<rparr>,
         \<lparr>job_id = 4, ContractId = 2, price = 5, paid = None, paymentDate = None\<rparr>]\<rparr>"

text \<open>
  The deposit scenario of section 8: client 1 owes two unpaid jobs of price 50 on a
  contract in progress; client 3 owes nothing.
\<close>

definition deposit_store :: store where
  "deposit_store =
     \<lparr>Profiles =
        [\<lparr>profile_id = 1, firstName = ''Harry'', lastName = ''Potter'', profession = ''Wizard'',
          balance = 10, role = Client\<rparr>,
         \<lparr>profile_id = 2, firstName = ''Linus'', lastName = ''Torvalds'', profession = ''Programmer'',
          balance = 0, role = Contractor\<rparr>,
         \<lparr>profile_id = 3, firstName = ''Ash'', lastName = ''Ketchum'', profession = ''Trainer'',
          balance = 4, role = Client\<rparr>],
      Contracts = [\<lparr>contract_id = 1, ClientId = 1, ContractorId = 2, status = in_progress\<rparr>],
      Jobs =
        [\<lparr>job_id = 1, ContractId = 1, price = 50, paid = None, paymentDate = None\<rparr>,
         \<lparr>job_id = 2, ContractId = 1, price = 50, paid = None, paymentDate = None\<rparr>]\<rparr>"

text \<open>
  Two stores with amounts that are not whole: \<open>fl (1 / 10)\<close> is the number written 0.1.
  In the first the contractor has 0.2 and the one unpaid job is priced 0.1; in the
  second the client owes two unpaid jobs priced 0.1 and 0.2.
\<close>

definition rounding_store :: store where
  "rounding_store =
     \<lparr>Profiles =
        [\<lparr>profile_id = 1, firstName = ''Harry'', lastName = ''Potter'', profession = ''Wizard'',
          balance = 1, role = Client\<rparr>,
         \<lparr>profile_id = 2, firstName = ''Linus'', lastName = ''Torvalds'', profession = ''Programmer'',
          balance = fl (2 / 10), role = Contractor\<rparr>],
      Contracts = [\<lparr>contract_id = 1, ClientId = 1, ContractorId = 2, status = in_progress\<rparr>],
      Jobs = [\<lparr>job_id = 1, ContractId = 1, price = fl (1 / 10), paid = None, paymentDate = None\<rparr>]\<rparr>"

definition tenths_store :: store where
  "tenths_store =
     \<lparr>Profiles =
        [\<lparr>profile_id = 1, firstName = ''Harry'', lastName = ''Potter'', profession = ''Wizard'',
          balance = 1, role = Client\<rparr>,
         \<lparr>profile_id = 2, firstName = ''Linus'', lastName = ''Torvalds'', profession = ''Programmer'',
          balance = 0, role = Contractor\<rparr>],
      Contracts = [\<lparr>contract_id = 1, ClientId = 1, ContractorId = 2, status = in_progress\<rparr>],
      Jobs =
        [\<lparr>job_id = 1, ContractId = 1, price = fl (1 / 10), paid = None, paymentDate = None\<rparr>,
         \<lparr>job_id = 2, ContractId = 1, price = fl (2 / 10), paid = None, paymentDate = None\<rparr>]\<rparr>"

text \<open>
  A store for the reports. In the window from 1 to 10 the paid jobs are 1, 2, 3 and 6:
  the payment dates 1 and 10 are its two ends, job 4 is paid at 11 and job 5 is unpaid.
  Programmers and musicians both earn 200 there.
\<close>

definition report_store :: store where
  "report_store =
     \<lparr>Profiles =
        [\<lparr>profile_id = 1, firstName = ''Harry'', lastName = ''Potter'', profession = ''Wizard'',
          balance = 1150, role = Client\<rparr>,
         \<lparr>profile_id = 2, firstName = ''Mr'', lastName = ''Robot'', profession = ''Hacker'',
          balance = 231, role = Client\<rparr>,
         \<lparr>profile_id = 3, firstName = ''John'', lastName = ''Snow'', profession = ''Knows nothing'',
          balance = 451, role = Client\<rparr>,
         \<lparr>profile_id = 5, firstName = ''John'', lastName = ''Lenon'', profession = ''Musician'',
          balance = 64, role = Contractor\<rparr>,
         \<lparr>profile_id = 6, firstName = ''Linus'', lastName = ''Torvalds'', profession = ''Programmer'',
          balance = 1214, role = Contractor\<rparr>,
         \<lparr>profile_id = 7, firstName = ''Alan'', lastName = ''Turing'', profession = ''Programmer'',
          balance = 22, role = Contractor\<rparr>,
         \<lparr>profile_id = 8, firstName = ''Aragorn'', lastName = ''Elessar'', profession = ''Fighter'',
          balance = 314, role = Contractor\<rparr>,
         \<lparr>profile_id = 9, firstName = ''Ash'', lastName = ''Ketchum'', profession = ''Trainer'',
          balance = 0, role = Contractor\<rparr>],
      Contracts =
        [\<lparr>contract_id = 1, ClientId = 1, ContractorId = 6, status = terminated\<rparr>,
         \<lparr>contract_id = 2, ClientId = 2, ContractorId = 5, status = in_progress\<rparr>,
         \<lparr>contract_id = 3, ClientId = 3, ContractorId = 7, status = in_progress\<rparr>,
         \<lparr>contract_id = 4, ClientId = 1, ContractorId = 8, status = in_progress\<rparr>],
      Jobs =
        [\<lparr>job_id = 1, ContractId = 1, price = 120, paid = Some True, paymentDate = Some 5\<rparr>,
         \<lparr>job_id = 2, ContractId = 3, price = 80, paid = Some True, paymentDate = Some 10\<rparr>,
         \<lparr>job_id = 3, ContractId = 2, price = 200, paid = Some True, paymentDate = Some 6\<rparr>,
         \<lparr>job_id = 4, ContractId = 4, price = 500, paid = Some True, paymentDate = Some 11\<rparr>,
         \<lparr>job_id = 5, ContractId = 4, price = 70, paid = None, paymentDate = None\<rparr>,
         \<lparr>job_id = 6, ContractId = 4, price = 30, paid = Some True, paymentDate = Some 1\<rparr>]\<rparr>"

section \<open>Rounding\<close>

text \<open>
  Rounding keeps zero and the sign, and it keeps every whole number below \<open>2 ^ 53\<close> in
  magnitude: on such numbers \<^verbatim>\<open>-\<close> and \<^verbatim>\<open>+\<close> are exact.
\<close>

lemma fl_0 [simp]: "fl 0 = 0"
  by (simp add: fl_def)

lemma round_half_even_of_int [simp]: "round_half_even (of_int m) = m"
  by (simp add: round_half_even_def)

lemma round_half_even_nonneg: "0 \<le> q \<Longrightarrow> 0 \<le> round_half_even q"
  by (auto simp: round_half_even_def Let_def)

lemma fl_nonneg: "0 \<le> x \<Longrightarrow> 0 \<le> fl x"
proof (cases "x = 0")
  case True
  then show ?thesis by simp
next
  case False
  assume "0 \<le> x"
  define e where "e = max (ilog2 \<bar>x\<bar> - 52) (- 1074)"
  have pos: "(0::rat) < 2 powi e" by simp
  with \<open>0 \<le> x\<close> have "0 \<le> x / 2 powi e" by simp
  then have "0 \<le> round_half_even (x / 2 powi e)" by (rule round_half_even_nonneg)
  then have "0 \<le> rat_of_int (round_half_even (x / 2 powi e)) * 2 powi e"
    using pos by simp
  with False show ?thesis by (simp add: fl_def e_def Let_def)
qed

lemma ilog2_of_int: "0 < a \<Longrightarrow> ilog2 (of_int a) = bitlen a - 1"
  by (simp add: ilog2_def)

lemma bitlen_le_53:
  assumes "0 < a" "a < 2 ^ 53"
  shows "bitlen a \<le> 53"
proof (rule ccontr)
  assume "\<not> bitlen a \<le> 53"
  then have "53 \<le> bitlen a - 1" by simp
  then have "(2::int) ^ 53 \<le> 2 ^ nat (bitlen a - 1)"
    by (intro power_increasing) auto
  also have "\<dots> \<le> a" using bitlen_bounds [OF assms(1)] by simp
  finally show False using assms(2) by simp
qed

lemma fl_of_int:
  assumes "\<bar>n\<bar> < 2 ^ 53"
  shows "fl (of_int n) = of_int n"
proof (cases "n = 0")
  case True
  then show ?thesis by simp
next
  case False
  define a where "a = \<bar>n\<bar>"
  have a: "0 < a" "a < 2 ^ 53" using False assms by (simp_all add: a_def)
  define e where "e = max (bitlen a - 1 - 52) (- 1074)"
  have "bitlen a \<le> 53" using a by (rule bitlen_le_53)
  then have e: "e \<le> 0" by (simp add: e_def)
  define k where "k = nat (- e)"
  have ek: "e = - int k"
    using e by (simp add: k_def)
  have p: "(2::rat) powi e = 1 / 2 ^ k"
    unfolding ek by (simp add: power_int_minus inverse_eq_divide)
  have il: "ilog2 \<bar>rat_of_int n\<bar> = bitlen a - 1"
    using ilog2_of_int [OF a(1)] by (simp add: a_def)
  have "rat_of_int n / 2 powi e = of_int (n * 2 ^ k)"
    by (simp add: p)
  then have "round_half_even (rat_of_int n / 2 powi e) = n * 2 ^ k"
    by (simp only: round_half_even_of_int)
  then have "of_int (round_half_even (rat_of_int n / 2 powi e)) * 2 powi e = rat_of_int n"
    by (simp add: p)
  with False show ?thesis
    by (simp add: fl_def il e_def Let_def)
qed

lemma fl_Ints: "x \<in> \<int> \<Longrightarrow> \<bar>x\<bar> < 2 ^ 53 \<Longrightarrow> fl x = x"
proof -
  assume "x \<in> \<int>" and b: "\<bar>x\<bar> < 2 ^ 53"
  then obtain n where n: "x = of_int n" by (auto elim: Ints_cases)
  with b have "rat_of_int \<bar>n\<bar> < rat_of_int (2 ^ 53)" by simp
  then have "\<bar>n\<bar> < 2 ^ 53" by (simp only: of_int_less_iff)
  then show ?thesis unfolding n by (rule fl_of_int)
qed

lemma fl_numeral: "(numeral k :: int) < 2 ^ 53 \<Longrightarrow> fl (numeral k) = numeral k"
  using fl_of_int [of "numeral k"] by simp

lemma fl_neg_numeral: "(numeral k :: int) < 2 ^ 53 \<Longrightarrow> fl (- numeral k) = - numeral k"
  using fl_of_int [of "- numeral k"] by simp

lemma fl_1 [simp]: "fl 1 = 1"
  using fl_of_int [of 1] by simp

text \<open>The numbers written \<open>0.1\<close>, \<open>0.2\<close> and \<open>0.3\<close>, and two sums of them.\<close>

lemma fl_tenth: "fl (1 / 10) = 3602879701896397 / 36028797018963968"
  by code_simp

lemma fl_two_tenths: "fl (2 / 10) = 3602879701896397 / 18014398509481984"
  by code_simp

lemma fl_three_tenths: "fl (3 / 10) = 5404319552844595 / 18014398509481984"
  by code_simp

lemma fl_tenth_plus_two_tenths:
  "fl (fl (1 / 10) + fl (2 / 10)) = 1351079888211149 / 4503599627370496"
  by code_simp

text \<open>A quarter of 30, the limit in the payment scenario, is exact.\<close>

lemma fl_fifteen_halves: "fl (15 / 2) = 15 / 2"
  by code_simp

section \<open>Evaluation\<close>

text \<open>The defining equations that unfold a request on a concrete store.\<close>

lemmas run_simps =
  PayJob_def pay_handler_def pay_updates_def Job_findOne_payable_def payable_def
  Deposit_def deposit_handler_def depositLimit_def totalJobsDebt_def unpaid_jobs_of_client_def
  Job_Contract_def Contract_Contractor_def Contract_Client_def
  Contract_by_id_def Profile_by_id_def Job_by_id_def getProfile_def
  Profile_update_def Job_update_def no_faults_def Let_def fl_numeral fl_neg_numeral
  fl_fifteen_halves

lemmas report_simps =
  BestProfession_def best_profession_handler_def profession_rows_def
  BestClients_def best_clients_handler_def client_rows_def limit_or_2_def apply_limit_def
  read_limit_example_def
  group_sum_def order_by_insertion_def paid_between_def Job_Contractor_def Job_Client_def
  Job_Contract_def Contract_Contractor_def Contract_Client_def
  Contract_by_id_def Profile_by_id_def getProfile_def

section \<open>Lookups after updates\<close>

lemma find_map_same_key:
  assumes "\<And>x. key (f x) = key x"
  shows "find (\<lambda>x. key x = k) (map f xs) = map_option f (find (\<lambda>x. key x = k) xs)"
  using assms by (induction xs) auto

lemma find_conj:
  "find P xs = Some x \<Longrightarrow> Q x \<Longrightarrow> find (\<lambda>y. P y \<and> Q y) xs = Some x"
  by (induction xs) (auto split: if_splits)

lemma Profile_by_id_Profile_update:
  "Profile_by_id (Profile_update i b db) k =
     map_option (\<lambda>p. if profile_id p = i then p\<lparr>balance := b\<rparr> else p) (Profile_by_id db k)"
  unfolding Profile_by_id_def Profile_update_def
  by (simp add: find_map_same_key [where key = profile_id])

lemma Profile_by_id_Job_update [simp]:
  "Profile_by_id (Job_update i now db) k = Profile_by_id db k"
  by (simp add: Profile_by_id_def Job_update_def)

lemma Job_by_id_Profile_update [simp]:
  "Job_by_id (Profile_update i b db) k = Job_by_id db k"
  by (simp add: Job_by_id_def Profile_update_def)

lemma Job_by_id_Job_update:
  "Job_by_id (Job_update i now db) k =
     map_option (\<lambda>j. if job_id j = i then j\<lparr>paid := Some True, paymentDate := Some now\<rparr> else j)
       (Job_by_id db k)"
  unfolding Job_by_id_def Job_update_def
  by (simp add: find_map_same_key [where key = job_id])

lemma Profile_by_id_id: "Profile_by_id db k = Some p \<Longrightarrow> profile_id p = k"
  by (auto simp: Profile_by_id_def dest: find_Some_iff [THEN iffD1])

lemma Job_by_id_id: "Job_by_id db k = Some j \<Longrightarrow> job_id j = k"
  by (auto simp: Job_by_id_def dest: find_Some_iff [THEN iffD1])

lemma Job_findOne_payable_found:
  assumes "Job_by_id db jid = Some job" "paid job = None"
      and "Job_Contract db job = Some contract"
      and "status contract = in_progress" "ClientId contract = caller"
  shows "Job_findOne_payable db caller jid = Some (job, contract, Contract_Contractor db contract)"
proof -
  have "find (\<lambda>j. job_id j = jid \<and> (paid j = None \<and>
     (case Job_Contract db j of None \<Rightarrow> False | Some c \<Rightarrow> ClientId c = caller \<and> status c = in_progress)))
     (Jobs db) = Some job"
    using assms by (intro find_conj) (simp_all add: Job_by_id_def)
  then have "find (payable db caller jid) (Jobs db) = Some job"
    by (simp add: payable_def [abs_def])
  then show ?thesis
    using assms by (simp add: Job_findOne_payable_def)
qed

section \<open>Paying a job\<close>

text \<open>
  Claim C1, as the code has it. When the job with the requested id exists with \<open>paid\<close>
  unset, its contract is in progress with the caller as client, and the caller's
  balance is at least the price, PayJob answers 200; afterwards the client's balance
  is the rounded difference \<open>fl (balance - price)\<close>, the contractor's balance is the
  rounded sum \<open>fl (balance + price)\<close>, and the job has \<open>paid = true\<close> and
  \<open>paymentDate = now\<close>. When the two amounts are whole numbers and the result is below
  \<open>2 ^ 53\<close> in magnitude, the balance has changed by exactly the price. The statement is
  about a request during which the store rejects no update and no result overflows,
  on a contract whose contractor exists and is not the client (section 3 of the
  specification: a contract references two distinct profiles).
\<close>

theorem PayJob_success:
  assumes "\<not> fails 0" "\<not> fails 1" "\<not> fails 2"
      and "Job_by_id db jid = Some job" "paid job = None"
      and "Job_Contract db job = Some contract"
      and "status contract = in_progress" "ClientId contract = caller"
      and "getProfile db caller = Some client"
      and "Contract_Contractor db contract = Some contractor"
      and "ContractorId contract \<noteq> caller"
      and "price job \<le> balance client"
      and "finite64 (fl (balance client - price job))"
      and "finite64 (fl (balance contractor + price job))"
  shows "fst (PayJob fails now caller jid db) = 200 \<and>
         Profile_by_id (snd (PayJob fails now caller jid db)) caller =
           Some (client\<lparr>balance := fl (balance client - price job)\<rparr>) \<and>
         Profile_by_id (snd (PayJob fails now caller jid db)) (ContractorId contract) =
           Some (contractor\<lparr>balance := fl (balance contractor + price job)\<rparr>) \<and>
         Job_by_id (snd (PayJob fails now caller jid db)) jid =
           Some (job\<lparr>paid := Some True, paymentDate := Some now\<rparr>) \<and>
         (balance client \<in> \<int> \<and> price job \<in> \<int> \<and> \<bar>balance client - price job\<bar> < 2 ^ 53 \<longrightarrow>
            Profile_by_id (snd (PayJob fails now caller jid db)) caller =
              Some (client\<lparr>balance := balance client - price job\<rparr>)) \<and>
         (balance contractor \<in> \<int> \<and> price job \<in> \<int> \<and>
          \<bar>balance contractor + price job\<bar> < 2 ^ 53 \<longrightarrow>
            Profile_by_id (snd (PayJob fails now caller jid db)) (ContractorId contract) =
              Some (contractor\<lparr>balance := balance contractor + price job\<rparr>))"
proof -
  have cid: "profile_id client = caller"
    using assms(9) by (simp add: getProfile_def Profile_by_id_id)
  have tid: "profile_id contractor = ContractorId contract"
    using assms(10) by (simp add: Contract_Contractor_def Profile_by_id_id)
  have jid: "job_id job = jid"
    using assms(4) by (rule Job_by_id_id)
  have found: "Job_findOne_payable db (profile_id client) jid = Some (job, contract, Some contractor)"
    using Job_findOne_payable_found [OF assms(4-7) assms(8)] assms(10) cid by simp
  have run: "PayJob fails now caller jid db =
      (200, Job_update jid now
              (Profile_update (ContractorId contract) (fl (balance contractor + price job))
                 (Profile_update caller (fl (balance client - price job)) db)))"
    using assms(1-3) assms(9) assms(12) found cid
    by (simp add: PayJob_def pay_handler_def pay_updates_def Let_def)
  have status: "fst (PayJob fails now caller jid db) = 200"
    by (simp add: run)
  have client: "Profile_by_id (snd (PayJob fails now caller jid db)) caller =
      Some (client\<lparr>balance := fl (balance client - price job)\<rparr>)"
    using assms(9) assms(11) cid
    by (simp add: run Profile_by_id_Profile_update getProfile_def)
  have contractor: "Profile_by_id (snd (PayJob fails now caller jid db)) (ContractorId contract) =
      Some (contractor\<lparr>balance := fl (balance contractor + price job)\<rparr>)"
    using assms(10) assms(11) tid
    by (simp add: run Profile_by_id_Profile_update Contract_Contractor_def)
  have job: "Job_by_id (snd (PayJob fails now caller jid db)) jid =
      Some (job\<lparr>paid := Some True, paymentDate := Some now\<rparr>)"
    using assms(4) jid by (simp add: run Job_by_id_Job_update)
  have exact_client: "fl (balance client - price job) = balance client - price job"
    if "balance client \<in> \<int> \<and> price job \<in> \<int> \<and> \<bar>balance client - price job\<bar> < 2 ^ 53"
    using that by (intro fl_Ints Ints_diff) simp_all
  have exact_contractor: "fl (balance contractor + price job) = balance contractor + price job"
    if "balance contractor \<in> \<int> \<and> price job \<in> \<int> \<and> \<bar>balance contractor + price job\<bar> < 2 ^ 53"
    using that by (intro fl_Ints Ints_add) simp_all
  show ?thesis
    using status client contractor job exact_client exact_contractor by simp
qed

theorem PayJob_success_witness:
  "Job_by_id scenario_store 1 =
     Some \<lparr>job_id = 1, ContractId = 1, price = 30, paid = None, paymentDate = None\<rparr> \<and>
   map_option status (Contract_by_id scenario_store 1) = Some in_progress \<and>
   map_option ClientId (Contract_by_id scenario_store 1) = Some 1 \<and>
   map_option ContractorId (Contract_by_id scenario_store 1) = Some 2 \<and>
   map_option balance (getProfile scenario_store 1) = Some 100 \<and>
   map_option balance (Profile_by_id scenario_store 2) = Some 0 \<and>
   finite64 (fl (100 - 30)) \<and> finite64 (fl (0 + 30)) \<and>
   fst (PayJob no_faults 7 1 1 scenario_store) = 200 \<and>
   map balance (Profiles (snd (PayJob no_faults 7 1 1 scenario_store))) = [70, 30] \<and>
   Job_by_id (snd (PayJob no_faults 7 1 1 scenario_store)) 1 =
     Some \<lparr>job_id = 1, ContractId = 1, price = 30, paid = Some True, paymentDate = Some 7\<rparr> \<and>
   fst (PayJob no_faults 8 1 1 (snd (PayJob no_faults 7 1 1 scenario_store))) = 404"
  using PayJob_success [of no_faults scenario_store 1
      "\<lparr>job_id = 1, ContractId = 1, price = 30, paid = None, paymentDate = None\<rparr>"
      "\<lparr>contract_id = 1, ClientId = 1, ContractorId = 2, status = in_progress\<rparr>" 1
      "\<lparr>profile_id = 1, firstName = ''Harry'', lastName = ''Potter'', profession = ''Wizard'',
          balance = 100, role = Client\<rparr>"
      "\<lparr>profile_id = 2, firstName = ''Linus'', lastName = ''Torvalds'', profession = ''Programmer'',
          balance = 0, role = Contractor\<rparr>" 7]
  by (simp add: scenario_store_def run_simps finite64_def)

text \<open>
  Claim C1 as stated says that the contractor's balance increases by exactly the price.
  With a contractor at the number 0.2 and a job priced at the number 0.1, PayJob answers
  200 and stores 0.30000000000000004: the balance has grown by more than the price.
\<close>

theorem PayJob_rounding_counterexample:
  "map_option balance (Profile_by_id rounding_store 2) = Some (fl (2 / 10)) \<and>
   map_option price (Job_by_id rounding_store 1) = Some (fl (1 / 10)) \<and>
   fst (PayJob no_faults 7 1 1 rounding_store) = 200 \<and>
   map_option balance (Profile_by_id (snd (PayJob no_faults 7 1 1 rounding_store)) 2) =
     Some (1351079888211149 / 4503599627370496) \<and>
   fl (1 / 10) < 1351079888211149 / 4503599627370496 - fl (2 / 10)"
  by code_simp

section \<open>Which requests are refused\<close>

lemma find_distinct_key:
  "distinct (map key xs) \<Longrightarrow> x \<in> set xs \<Longrightarrow> find (\<lambda>y. key y = key x) xs = Some x"
  by (induction xs) (auto simp: image_iff)

lemma find_payable_None_iff:
  assumes "distinct (map job_id (Jobs db))"
  shows "find (payable db caller jid) (Jobs db) = None \<longleftrightarrow>
         (case Job_by_id db jid of
            None \<Rightarrow> True
          | Some j \<Rightarrow> paid j \<noteq> None \<or>
              (case Job_Contract db j of
                 None \<Rightarrow> True
               | Some c \<Rightarrow> status c \<noteq> in_progress \<or> ClientId c \<noteq> caller))"
proof (cases "Job_by_id db jid")
  case None
  then have "\<forall>j\<in>set (Jobs db). job_id j \<noteq> jid"
    by (simp add: Job_by_id_def find_None_iff)
  then have "find (payable db caller jid) (Jobs db) = None"
    by (auto simp: find_None_iff payable_def)
  with None show ?thesis by simp
next
  case (Some j)
  then have j: "j \<in> set (Jobs db)" "job_id j = jid"
    by (auto simp: Job_by_id_def find_Some_iff)
  have only: "j' = j" if "j' \<in> set (Jobs db)" "job_id j' = jid" for j'
  proof -
    have "find (\<lambda>y. job_id y = job_id j') (Jobs db) = Some j'"
      using assms that(1) by (rule find_distinct_key)
    with Some that(2) show ?thesis by (simp add: Job_by_id_def)
  qed
  have "find (payable db caller jid) (Jobs db) = None \<longleftrightarrow> \<not> payable db caller jid j"
  proof
    assume "find (payable db caller jid) (Jobs db) = None"
    with j(1) show "\<not> payable db caller jid j" by (auto simp: find_None_iff)
  next
    assume "\<not> payable db caller jid j"
    then have "\<forall>j'\<in>set (Jobs db). \<not> payable db caller jid j'"
      using only by (auto simp: payable_def)
    then show "find (payable db caller jid) (Jobs db) = None"
      by (simp add: find_None_iff)
  qed
  with Some j(2) show ?thesis
    by (auto simp: payable_def split: option.splits)
qed

lemma PayJob_404_iff:
  assumes "getProfile db caller = Some profile"
  shows "fst (PayJob fails now caller jid db) = 404 \<longleftrightarrow>
         find (payable db caller jid) (Jobs db) = None"
proof -
  have pid: "profile_id profile = caller"
    using assms by (simp add: getProfile_def Profile_by_id_id)
  have "Job_Contract db j \<noteq> None" if "find (payable db caller jid) (Jobs db) = Some j" for j
    using that by (auto simp: find_Some_iff payable_def split: option.splits)
  then show ?thesis
    using assms pid
    by (auto simp: PayJob_def pay_handler_def Job_findOne_payable_def
        split: option.splits prod.splits if_splits)
qed

text \<open>
  Claim C4. For an authenticated caller, PayJob answers 404 exactly when the job with
  the requested id is absent, has \<open>paid\<close> set, or has a contract that is missing, not
  in progress or with another client. When none of these holds it answers 400
  exactly when the caller's balance is strictly below the price; with a balance
  equal to the price the answer is neither 404 nor 400. Job ids are unique.
\<close>

theorem PayJob_validation:
  assumes "distinct (map job_id (Jobs db))"
      and "getProfile db caller = Some profile"
  shows "(fst (PayJob fails now caller jid db) = 404 \<longleftrightarrow>
            (case Job_by_id db jid of
               None \<Rightarrow> True
             | Some j \<Rightarrow> paid j \<noteq> None \<or>
                 (case Job_Contract db j of
                    None \<Rightarrow> True
                  | Some c \<Rightarrow> status c \<noteq> in_progress \<or> ClientId c \<noteq> caller))) \<and>
         (\<forall>j c. Job_by_id db jid = Some j \<and> paid j = None \<and> Job_Contract db j = Some c \<and>
                status c = in_progress \<and> ClientId c = caller \<longrightarrow>
            (fst (PayJob fails now caller jid db) = 400 \<longleftrightarrow> balance profile < price j) \<and>
            (balance profile = price j \<longrightarrow>
               fst (PayJob fails now caller jid db) \<noteq> 404 \<and>
               fst (PayJob fails now caller jid db) \<noteq> 400))"
proof (intro conjI allI impI)
  show "fst (PayJob fails now caller jid db) = 404 \<longleftrightarrow>
            (case Job_by_id db jid of
               None \<Rightarrow> True
             | Some j \<Rightarrow> paid j \<noteq> None \<or>
                 (case Job_Contract db j of
                    None \<Rightarrow> True
                  | Some c \<Rightarrow> status c \<noteq> in_progress \<or> ClientId c \<noteq> caller))"
    using PayJob_404_iff [OF assms(2)] find_payable_None_iff [OF assms(1)] by simp
next
  fix j c
  assume pre: "Job_by_id db jid = Some j \<and> paid j = None \<and> Job_Contract db j = Some c \<and>
                status c = in_progress \<and> ClientId c = caller"
  have pid: "profile_id profile = caller"
    using assms(2) by (simp add: getProfile_def Profile_by_id_id)
  have found: "Job_findOne_payable db caller jid = Some (j, c, Contract_Contractor db c)"
    using pre Job_findOne_payable_found [of db jid j c caller] by simp
  show "fst (PayJob fails now caller jid db) = 400 \<longleftrightarrow> balance profile < price j"
    using assms(2) pid found
    by (auto simp: PayJob_def pay_handler_def split: option.splits prod.splits)
  show "fst (PayJob fails now caller jid db) \<noteq> 404" if "balance profile = price j"
    using assms(2) pid found that
    by (auto simp: PayJob_def pay_handler_def split: option.splits prod.splits)
  show "fst (PayJob fails now caller jid db) \<noteq> 400" if "balance profile = price j"
    using assms(2) pid found that
    by (auto simp: PayJob_def pay_handler_def split: option.splits prod.splits)
qed

theorem PayJob_validation_witness:
  "distinct (map job_id (Jobs boundary_store)) \<and>
   map_option balance (getProfile boundary_store 1) = Some 30 \<and>
   map_option price (Job_by_id boundary_store 1) = Some 30 \<and>
   fst (PayJob no_faults 7 1 1 boundary_store) = 200 \<and>
   fst (PayJob no_faults 7 1 2 boundary_store) = 400 \<and>
   fst (PayJob no_faults 7 1 3 boundary_store) = 404 \<and>
   fst (PayJob no_faults 7 1 4 boundary_store) = 404 \<and>
   fst (PayJob no_faults 7 1 5 boundary_store) = 404 \<and>
   fst (PayJob no_faults 7 2 1 boundary_store) = 404"
  using PayJob_validation [of boundary_store 1
      "\<lparr>profile_id = 1, firstName = ''Harry'', lastName = ''Potter'', profession = ''Wizard'',
          balance = 30, role = Client\<rparr>" no_faults 7 1]
  by (simp add: boundary_store_def run_simps)

section \<open>Refused requests\<close>

text \<open>
  A request that is answered 401, 404 or 400 has written nothing: the three answers
  are given before the first update.
\<close>

lemma PayJob_refusal_keeps_store:
  "fst (PayJob fails now caller jid db) \<in> {401, 404, 400} \<Longrightarrow>
   snd (PayJob fails now caller jid db) = db"
  by (auto simp: PayJob_def pay_handler_def split: option.splits prod.splits if_splits)

text \<open>
  An answer of 200 means that no update was rejected; whenever the first update the
  request reaches is rejected, or the contractor is missing, the answer is 500.
\<close>

lemma PayJob_200_no_fault:
  "fst (PayJob fails now caller jid db) = 200 \<Longrightarrow> \<not> fails 0 \<and> \<not> fails 1 \<and> \<not> fails 2"
  by (auto simp: PayJob_def pay_handler_def pay_updates_def Let_def
      split: option.splits prod.splits if_splits)

section \<open>A rejected update\<close>

text \<open>
  Claim C2. The claim asks that a failure inside the block leaves both balances and
  the job as they were and is answered 500. In the scenario store, when the store
  rejects the second update (the contractor's balance), the answer is 500, the job is
  still unpaid and the contractor still has 0, but the client's balance is 70: the
  first update has stayed.
\<close>

theorem PayJob_partial_update:
  "fst (PayJob (\<lambda>k. k = 1) 7 1 1 scenario_store) = 500 \<and>
   map balance (Profiles scenario_store) = [100, 0] \<and>
   map paid (Jobs scenario_store) = [None] \<and>
   map balance (Profiles (snd (PayJob (\<lambda>k. k = 1) 7 1 1 scenario_store))) = [70, 0] \<and>
   map paid (Jobs (snd (PayJob (\<lambda>k. k = 1) 7 1 1 scenario_store))) = [None]"
  by (simp add: scenario_store_def run_simps)

text \<open>
  Claim C3. The claim asks that the balances of client and contractor add up to the
  same amount after every call, failed ones included. In the same request as above,
  answered 500, they add up to 100 before and to 70 after.
\<close>

theorem PayJob_failure_loses_money:
  "fst (PayJob (\<lambda>k. k = 1) 7 1 1 scenario_store) = 500 \<and>
   map_option balance (Profile_by_id scenario_store 1) = Some 100 \<and>
   map_option balance (Profile_by_id scenario_store 2) = Some 0 \<and>
   map_option balance (Profile_by_id (snd (PayJob (\<lambda>k. k = 1) 7 1 1 scenario_store)) 1) = Some 70 \<and>
   map_option balance (Profile_by_id (snd (PayJob (\<lambda>k. k = 1) 7 1 1 scenario_store)) 2) = Some 0"
  by (simp add: scenario_store_def run_simps)

section \<open>Deposits\<close>

lemma foldl_fl_whole:
  assumes "\<forall>x\<in>set xs. f x \<in> \<int> \<and> 0 \<le> f x"
      and "acc \<in> \<int>" and "0 \<le> acc"
      and "acc + (\<Sum>x \<leftarrow> xs. f x) < 2 ^ 53"
  shows "foldl (\<lambda>a x. fl (a + f x)) acc xs = acc + (\<Sum>x \<leftarrow> xs. f x)"
  using assms
proof (induction xs arbitrary: acc)
  case Nil
  then show ?case by simp
next
  case (Cons x xs)
  have rest: "0 \<le> (\<Sum>x \<leftarrow> xs. f x)"
    using Cons.prems(1) by (intro sum_list_nonneg) auto
  have x: "f x \<in> \<int>" "0 \<le> f x"
    using Cons.prems(1) by simp_all
  have "acc + f x \<in> \<int>"
    using Cons.prems(2) x(1) by (rule Ints_add)
  moreover have "\<bar>acc + f x\<bar> < 2 ^ 53"
    using Cons.prems(3,4) x(2) rest by simp
  ultimately have step: "fl (acc + f x) = acc + f x"
    by (rule fl_Ints)
  have "foldl (\<lambda>a x. fl (a + f x)) (acc + f x) xs = acc + f x + (\<Sum>x \<leftarrow> xs. f x)"
  proof (rule Cons.IH)
    show "\<forall>x\<in>set xs. f x \<in> \<int> \<and> 0 \<le> f x" using Cons.prems(1) by simp
    show "acc + f x \<in> \<int>" by fact
    show "0 \<le> acc + f x" using Cons.prems(3) x(2) by simp
    show "acc + f x + (\<Sum>x \<leftarrow> xs. f x) < 2 ^ 53" using Cons.prems(4) by (simp add: add.assoc)
  qed
  then show ?case by (simp add: step add.assoc)
qed

text \<open>
  Claim C5, as the code has it. \<open>totalJobsDebt\<close> is the left-to-right rounded sum of
  \<open>price\<close> over the unpaid jobs whose contract has the target as client and is in
  progress, which is their exact sum when the prices are whole, not negative and add
  up to less than \<open>2 ^ 53\<close>; \<open>depositLimit\<close> is the rounded product of it and 0.25;
  Deposit answers 400 exactly when the amount exceeds this limit; an amount equal to
  the limit, for a target that exists and with no statement rejected, is answered
  200 and the target's balance becomes the rounded sum \<open>fl (balance + amount)\<close>; and a
  target without such jobs has limit 0, so every positive amount is answered 400. No
  sum overflows.
\<close>

theorem Deposit_limit:
  assumes "getProfile db caller = Some profile"
      and "finite_sums 0 (map price (unpaid_jobs_of_client db userId))"
  shows "totalJobsDebt db userId =
           foldl (\<lambda>acc job. fl (acc + price job)) 0
             [j \<leftarrow> Jobs db. paid j = None \<and>
                (case Job_Contract db j of
                   None \<Rightarrow> False
                 | Some c \<Rightarrow> ClientId c = userId \<and> status c = in_progress)] \<and>
         depositLimit db userId = fl (totalJobsDebt db userId * 0.25) \<and>
         (fst (Deposit fails caller userId amount db) = 400 \<longleftrightarrow> amount > depositLimit db userId) \<and>
         (amount = depositLimit db userId \<and> Profile_by_id db userId = Some target \<and>
          \<not> fails 0 \<and> \<not> fails 1 \<and> finite64 (fl (balance target + amount)) \<longrightarrow>
            fst (Deposit fails caller userId amount db) = 200 \<and>
            Profile_by_id (snd (Deposit fails caller userId amount db)) userId =
              Some (target\<lparr>balance := fl (balance target + amount)\<rparr>)) \<and>
         (unpaid_jobs_of_client db userId = [] \<longrightarrow>
            depositLimit db userId = 0 \<and>
            (0 < amount \<longrightarrow> fst (Deposit fails caller userId amount db) = 400)) \<and>
         ((\<forall>j\<in>set (unpaid_jobs_of_client db userId). price j \<in> \<int> \<and> 0 \<le> price j) \<and>
          (\<Sum>j \<leftarrow> unpaid_jobs_of_client db userId. price j) < 2 ^ 53 \<longrightarrow>
            totalJobsDebt db userId = (\<Sum>j \<leftarrow> unpaid_jobs_of_client db userId. price j))"
proof -
  have debt: "totalJobsDebt db userId =
           foldl (\<lambda>acc job. fl (acc + price job)) 0
             [j \<leftarrow> Jobs db. paid j = None \<and>
                (case Job_Contract db j of
                   None \<Rightarrow> False
                 | Some c \<Rightarrow> ClientId c = userId \<and> status c = in_progress)]"
    by (simp add: totalJobsDebt_def unpaid_jobs_of_client_def)
  have limit: "depositLimit db userId = fl (totalJobsDebt db userId * 0.25)"
    by (simp add: depositLimit_def)
  have status: "fst (Deposit fails caller userId amount db) = 400 \<longleftrightarrow> amount > depositLimit db userId"
    using assms(1) by (simp add: Deposit_def deposit_handler_def split: option.splits)
  have accepted: "fst (Deposit fails caller userId amount db) = 200 \<and>
      Profile_by_id (snd (Deposit fails caller userId amount db)) userId =
        Some (target\<lparr>balance := fl (balance target + amount)\<rparr>)"
    if "amount = depositLimit db userId" "Profile_by_id db userId = Some target"
       "\<not> fails 0" "\<not> fails 1"
    using assms(1) that Profile_by_id_id [OF that(2)]
    by (simp add: Deposit_def deposit_handler_def Profile_by_id_Profile_update)
  have zero: "depositLimit db userId = 0" if "unpaid_jobs_of_client db userId = []"
    using that by (simp add: depositLimit_def totalJobsDebt_def)
  have whole: "totalJobsDebt db userId = (\<Sum>j \<leftarrow> unpaid_jobs_of_client db userId. price j)"
    if "\<forall>j\<in>set (unpaid_jobs_of_client db userId). price j \<in> \<int> \<and> 0 \<le> price j"
       "(\<Sum>j \<leftarrow> unpaid_jobs_of_client db userId. price j) < 2 ^ 53"
    using foldl_fl_whole [of "unpaid_jobs_of_client db userId" price 0] that
    by (simp add: totalJobsDebt_def)
  show ?thesis
    using debt limit status accepted zero whole by (simp add: status)
qed

theorem Deposit_limit_witness:
  "map_option balance (getProfile deposit_store 1) = Some 10 \<and>
   map price (unpaid_jobs_of_client deposit_store 1) = [50, 50] \<and>
   finite_sums 0 [50, 50] \<and>
   totalJobsDebt deposit_store 1 = 100 \<and>
   depositLimit deposit_store 1 = 25 \<and>
   fst (Deposit no_faults 1 1 60 deposit_store) = 400 \<and>
   finite64 (fl (10 + 25)) \<and>
   fst (Deposit no_faults 1 1 25 deposit_store) = 200 \<and>
   map_option balance (Profile_by_id (snd (Deposit no_faults 1 1 25 deposit_store)) 1) = Some 35 \<and>
   unpaid_jobs_of_client deposit_store 3 = [] \<and>
   depositLimit deposit_store 3 = 0 \<and>
   fst (Deposit no_faults 3 3 1 deposit_store) = 400"
  using Deposit_limit [of deposit_store 1
      "\<lparr>profile_id = 1, firstName = ''Harry'', lastName = ''Potter'', profession = ''Wizard'',
          balance = 10, role = Client\<rparr>" 1 no_faults 25
      "\<lparr>profile_id = 1, firstName = ''Harry'', lastName = ''Potter'', profession = ''Wizard'',
          balance = 10, role = Client\<rparr>"]
  by (simp add: deposit_store_def run_simps finite64_def)

text \<open>
  Claim C5 as stated takes the limit to be a quarter of the sum of the prices. With two
  jobs priced at the numbers 0.1 and 0.2 the rounded sum is 0.30000000000000004 and
  the limit 0.07500000000000001: a deposit of that amount is answered 200 although it
  exceeds a quarter of the sum of the two prices.
\<close>

theorem Deposit_rounding_counterexample:
  "map price (unpaid_jobs_of_client tenths_store 1) = [fl (1 / 10), fl (2 / 10)] \<and>
   fl (1351079888211149 / 18014398509481984) = 1351079888211149 / 18014398509481984 \<and>
   0.25 * (fl (1 / 10) + fl (2 / 10)) < 1351079888211149 / 18014398509481984 \<and>
   fst (Deposit no_faults 1 1 (1351079888211149 / 18014398509481984) tenths_store) = 200"
  by code_simp

section \<open>Balances stay non-negative\<close>

lemma Profile_update_non_negative:
  "\<forall>p\<in>set (Profiles db). 0 \<le> balance p \<Longrightarrow> 0 \<le> b \<Longrightarrow>
   \<forall>p\<in>set (Profiles (Profile_update i b db)). 0 \<le> balance p"
  by (auto simp: Profile_update_def)

lemma Profile_by_id_mem: "Profile_by_id db k = Some p \<Longrightarrow> p \<in> set (Profiles db)"
  by (auto simp: Profile_by_id_def find_Some_iff)

lemma pay_updates_non_negative:
  assumes "\<forall>p\<in>set (Profiles db). 0 \<le> balance p"
      and "price job \<le> balance profile" and "0 \<le> price job"
      and "\<And>c. contractor = Some c \<Longrightarrow> 0 \<le> balance c"
  shows "\<forall>p\<in>set (Profiles (snd (pay_updates fails now profile jid job contract contractor db))).
           0 \<le> balance p"
proof -
  let ?db1 = "Profile_update (profile_id profile) (fl (balance profile - price job)) db"
  have "0 \<le> fl (balance profile - price job)"
    using assms(2) by (intro fl_nonneg) simp
  then have 1: "\<forall>p\<in>set (Profiles ?db1). 0 \<le> balance p"
    by (rule Profile_update_non_negative [OF assms(1)])
  have 2: "\<forall>p\<in>set (Profiles (Profile_update i (fl (balance c + price job)) ?db1)). 0 \<le> balance p"
    if "contractor = Some c" for c i
  proof -
    have "0 \<le> fl (balance c + price job)"
      using assms(3) assms(4) [OF that] by (intro fl_nonneg) simp
    then show ?thesis
      by (rule Profile_update_non_negative [OF 1])
  qed
  show ?thesis
    using assms(1) 1 2
    by (simp add: pay_updates_def Let_def Job_update_def split: option.splits)
qed

lemma PayJob_non_negative:
  assumes "\<forall>p\<in>set (Profiles db). 0 \<le> balance p" and "\<forall>j\<in>set (Jobs db). 0 \<le> price j"
  shows "\<forall>p\<in>set (Profiles (snd (PayJob fails now caller jid db))). 0 \<le> balance p"
proof (cases "getProfile db caller")
  case None
  with assms(1) show ?thesis by (simp add: PayJob_def)
next
  case (Some profile)
  show ?thesis
  proof (cases "Job_findOne_payable db (profile_id profile) jid")
    case None
    with Some assms(1) show ?thesis by (simp add: PayJob_def pay_handler_def)
  next
    case found: (Some row)
    obtain job contract contractor where row: "row = (job, contract, contractor)"
      by (cases row) auto
    have "job \<in> set (Jobs db)"
      using found row
      by (auto simp: Job_findOne_payable_def find_Some_iff split: option.splits)
    then have price: "0 \<le> price job"
      using assms(2) by simp
    have contractor: "0 \<le> balance c" if "contractor = Some c" for c
    proof -
      have "Contract_Contractor db contract = Some c"
        using found row that by (auto simp: Job_findOne_payable_def split: option.splits)
      then have "c \<in> set (Profiles db)"
        by (simp add: Contract_Contractor_def Profile_by_id_mem)
      with assms(1) show ?thesis by simp
    qed
    show ?thesis
    proof (cases "price job > balance profile")
      case True
      with Some found row assms(1) show ?thesis by (simp add: PayJob_def pay_handler_def)
    next
      case False
      have "\<forall>p\<in>set (Profiles (snd (pay_updates fails now profile jid job contract contractor db))).
              0 \<le> balance p"
      proof (rule pay_updates_non_negative)
        show "\<forall>p\<in>set (Profiles db). 0 \<le> balance p" by (rule assms(1))
        show "price job \<le> balance profile" using False by simp
        show "0 \<le> price job" by (rule price)
        show "0 \<le> balance c" if "contractor = Some c" for c using that by (rule contractor)
      qed
      then show ?thesis
        using Some found row False
        by (auto simp: PayJob_def pay_handler_def split: prod.splits option.splits)
    qed
  qed
qed

lemma Deposit_non_negative:
  assumes "\<forall>p\<in>set (Profiles db). 0 \<le> balance p"
      and "case Profile_by_id db userId of None \<Rightarrow> True | Some t \<Rightarrow> 0 \<le> balance t + amount"
  shows "\<forall>p\<in>set (Profiles (snd (Deposit fails caller userId amount db))). 0 \<le> balance p"
proof -
  have "\<forall>p\<in>set (Profiles (Profile_update userId (fl (balance t + amount)) db)). 0 \<le> balance p"
    if "Profile_by_id db userId = Some t" for t
  proof -
    have "0 \<le> fl (balance t + amount)"
      using assms(2) that by (intro fl_nonneg) simp
    then show ?thesis
      by (rule Profile_update_non_negative [OF assms(1)])
  qed
  then show ?thesis
    using assms(1)
    by (simp add: Deposit_def deposit_handler_def split: option.splits)
qed

text \<open>
  Claim C6, as the code has it. From a store where every balance is non-negative,
  PayJob leaves every balance non-negative when no job has a negative price, whatever
  updates the store rejects; Deposit leaves every balance non-negative when the
  target's balance plus the amount is non-negative.
\<close>

theorem balances_stay_non_negative:
  assumes "\<forall>p\<in>set (Profiles db). 0 \<le> balance p"
  shows "((\<forall>j\<in>set (Jobs db). 0 \<le> price j) \<longrightarrow>
            (\<forall>p\<in>set (Profiles (snd (PayJob fails now caller jid db))). 0 \<le> balance p)) \<and>
         ((case Profile_by_id db userId of None \<Rightarrow> True | Some t \<Rightarrow> 0 \<le> balance t + amount) \<longrightarrow>
            (\<forall>p\<in>set (Profiles (snd (Deposit fails caller userId amount db))). 0 \<le> balance p))"
  using PayJob_non_negative [OF assms] Deposit_non_negative [OF assms] by blast

theorem balances_stay_non_negative_witness:
  "map balance (Profiles scenario_store) = [100, 0] \<and>
   map price (Jobs scenario_store) = [30] \<and>
   map balance (Profiles (snd (PayJob no_faults 7 1 1 scenario_store))) = [70, 30] \<and>
   map balance (Profiles (snd (PayJob (\<lambda>k. k = 2) 7 1 1 scenario_store))) = [70, 30] \<and>
   map balance (Profiles (snd (Deposit no_faults 1 1 (-100) scenario_store))) = [0, 0]"
  using balances_stay_non_negative [where db = scenario_store and fails = no_faults and now = 7 and caller = 1 and jid = 1
      and userId = 1 and amount = "-100"]
  by (simp add: scenario_store_def run_simps)

text \<open>
  Claim C6 as stated fails for Deposit: the amount has no lower bound, and a deposit
  of -150 into a balance of 100 is answered 200 and leaves -50.
\<close>

theorem Deposit_negative_balance_counterexample:
  "map balance (Profiles scenario_store) = [100, 0] \<and>
   fst (Deposit no_faults 1 1 (-150) scenario_store) = 200 \<and>
   map balance (Profiles (snd (Deposit no_faults 1 1 (-150) scenario_store))) = [-50, 0]"
  by (simp add: scenario_store_def run_simps)

section \<open>Grouping and ordering\<close>





lemma group_sum_Nil [simp]: "group_sum [] = []"
  by (simp add: group_sum_def)

lemma ordered_mset: "orders_by_total_desc order_by \<Longrightarrow> mset (order_by rows) = mset rows"
  by (simp add: orders_by_total_desc_def)


lemma ordered_length: "orders_by_total_desc order_by \<Longrightarrow> length (order_by rows) = length rows"
  by (rule mset_eq_length) (rule ordered_mset)



lemma ordered_Nil: "orders_by_total_desc order_by \<Longrightarrow> order_by [] = []"
  using ordered_length [of order_by "[]"] by simp





section \<open>The profession report\<close>










section \<open>The client report\<close>



















section \<open>Who may read the reports\<close>

text \<open>The two reports on the report store, for the window from 1 to 10.\<close>

lemma report_store_professions:
  "BestProfession order_by_insertion 1 1 10 report_store =
     Json [(''Programmer'', 200), (''Musician'', 200), (''Fighter'', 30)]"
  by (simp add: report_store_def report_simps)

lemma report_store_clients:
  "BestClients read_limit_example order_by_insertion 1 1 10 None report_store =
     Json [(2, ''Mr Robot'', 200), (1, ''Harry Potter'', 150)]"
  by (simp add: report_store_def report_simps)

text \<open>
  Claim C10. The two report routes run \<open>getProfile\<close> and nothing else on the caller:
  any two callers that it resolves get the same answer, which is what the handler
  computes from the whole store for any profile whatever.
\<close>

theorem reports_ignore_caller:
  assumes "getProfile db a = Some profile_a" and "getProfile db b = Some profile_b"
  shows "BestProfession order_by a start end' db = BestProfession order_by b start end' db \<and>
         BestProfession order_by a start end' db =
           best_profession_handler order_by any_profile start end' db \<and>
         BestClients read_limit order_by' a start end' limit db =
           BestClients read_limit order_by' b start end' limit db \<and>
         BestClients read_limit order_by' a start end' limit db =
           best_clients_handler read_limit order_by' any_profile start end' limit db"
  using assms
  by (simp add: BestProfession_def BestClients_def best_profession_handler_def
      best_clients_handler_def)

theorem reports_ignore_caller_witness:
  "map_option role (getProfile report_store 1) = Some Client \<and>
   map_option role (getProfile report_store 9) = Some Contractor \<and>
   BestProfession order_by_insertion 1 1 10 report_store =
     Json [(''Programmer'', 200), (''Musician'', 200), (''Fighter'', 30)] \<and>
   BestProfession order_by_insertion 9 1 10 report_store =
     Json [(''Programmer'', 200), (''Musician'', 200), (''Fighter'', 30)] \<and>
   BestClients read_limit_example order_by_insertion 1 1 10 None report_store =
     Json [(2, ''Mr Robot'', 200), (1, ''Harry Potter'', 150)] \<and>
   BestClients read_limit_example order_by_insertion 9 1 10 None report_store =
     Json [(2, ''Mr Robot'', 200), (1, ''Harry Potter'', 150)]"
proof -
  have a: "getProfile report_store 1 =
      Some \<lparr>profile_id = 1, firstName = ''Harry'', lastName = ''Potter'', profession = ''Wizard'',
          balance = 1150, role = Client\<rparr>"
    by (simp add: report_store_def getProfile_def Profile_by_id_def)
  have b: "getProfile report_store 9 =
      Some \<lparr>profile_id = 9, firstName = ''Ash'', lastName = ''Ketchum'', profession = ''Trainer'',
          balance = 0, role = Contractor\<rparr>"
    by (simp add: report_store_def getProfile_def Profile_by_id_def)
  note same = reports_ignore_caller [OF a b, where order_by = order_by_insertion
      and order_by' = order_by_insertion and read_limit = read_limit_example
      and start = 1 and end' = 10 and limit = None]
  from same have p: "BestProfession order_by_insertion 9 1 10 report_store =
      BestProfession order_by_insertion 1 1 10 report_store"
    by simp
  from same have c: "BestClients read_limit_example order_by_insertion 9 1 10 None report_store =
      BestClients read_limit_example order_by_insertion 1 1 10 None report_store"
    by simp
  have ra: "map_option role (getProfile report_store 1) = Some Client"
    unfolding a by simp
  have rb: "map_option role (getProfile report_store 9) = Some Contractor"
    unfolding b by simp
  show ?thesis
    unfolding p c
    by (intro conjI ra rb report_store_professions report_store_clients)
qed

end
